theory Spec2Isabelle
  imports Complex_Main
begin

section \<open>Data model of the pipeline driver (src/main.py)\<close>

text \<open>
  The driver \<^verbatim>\<open>main.py\<close> wires together the generation, preprocessing, graph
  and training modules of the repository. Only the driver is modelled here; every function
  it imports from \<^verbatim>\<open>training.*\<close>, \<^verbatim>\<open>PIML.*\<close> and
  \<^verbatim>\<open>LayeredElastic.*\<close> is an external call whose result and whose effect on
  the file system are parameters of the model.

  Python exceptions are values of type \<open>error\<close>; a computation that may raise returns
  \<open>error + 'a\<close> with \<open>Inl\<close> for the exception.
\<close>

datatype error =
    ValueError string
  | KeyError string
  | TypeError string
  | IndexError string
  | FileNotFoundError string
  | UnpicklingError string
  | AttributeError string
  | NotFittedError
  | ExternalError string

text \<open>
  A pandas DataFrame: named columns and rows of numeric cells. Row order is the frame's
  positional order (what \<^verbatim>\<open>.iloc\<close> slices).
\<close>

record frame =
  columns :: "string list"
  rows :: "real list list"

type_synonym matrix = "real list list"

text \<open>The argparse Namespace built by \<^verbatim>\<open>parse_arguments\<close>; options that are not
  required are \<open>None\<close> when absent.\<close>

record args =
  run_analysis :: bool
  mode :: "string option"
  model :: "string option"
  data_path :: string
  lr :: real
  epochs :: int
  optimizer :: string
  criterion :: string
  log_dir :: string
  model_path :: "string option"

text \<open>A torch module, seen through the one thing the driver asks of it: its parameters.\<close>

record nn_module =
  parameters :: "real list"

datatype torch_optimizer = Adam "real list" real

datatype loss_module = L1Loss | MSELoss

subsection \<open>Configuration dictionaries\<close>

record material_config =
  N_MATERIALS :: int
  MATERIAL_TYPES :: "string list"
  SUBLAYER_MAX :: "int list"
  THICKNESS_RANGE :: "int list list"
  MODULUS_RANGE :: "int list list"
  THICKNESS_INCREMENT :: "int list"
  MODULUS_INCREMENT :: "int list"
  NU_RANGE :: "real list list"

record sampling_config =
  N_POINTS :: int
  Z_POINTS :: int
  X_POINTS :: int
  A_RANGE :: "int list"
  A_POINTS :: int
  FACTOR :: real
  FILTER :: int
  SPLIT_IDX :: int
  TEST_IDX :: int
  SEED :: int

record model_config =
  INPUT_DIM :: int
  HIDDEN_DIM1 :: int
  HIDDEN_DIM :: int
  OUTPUT_DIM :: int
  NUM_LAYERS :: int

definition MATERIAL_CONFIG :: material_config where
  "MATERIAL_CONFIG = \<lparr>
     N_MATERIALS = 3,
     MATERIAL_TYPES = [''AC'', ''B'', ''SG''],
     SUBLAYER_MAX = [1, 1, 1],
     THICKNESS_RANGE = [[2, 16], [4, 20]],
     MODULUS_RANGE = [[500, 2000], [50, 300], [5, 50]],
     THICKNESS_INCREMENT = [1, 2, 4],
     MODULUS_INCREMENT = [50, 20, 20, 5],
     NU_RANGE = [[3 / 10, 4 / 10], [2 / 10, 499 / 1000], [2 / 10, 499 / 1000]] \<rparr>"

definition SAMPLING_CONFIG :: sampling_config where
  "SAMPLING_CONFIG = \<lparr>
     N_POINTS = 1000,
     Z_POINTS = 14,
     X_POINTS = 10,
     A_RANGE = [4, 4],
     A_POINTS = 1,
     FACTOR = 4 / 10,
     FILTER = 2,
     SPLIT_IDX = 800,
     TEST_IDX = 900,
     SEED = 42 \<rparr>"

definition MODEL_CONFIG :: model_config where
  "MODEL_CONFIG = \<lparr>
     INPUT_DIM = 5,
     HIDDEN_DIM1 = 128,
     HIDDEN_DIM = 90,
     OUTPUT_DIM = 3,
     NUM_LAYERS = 10 \<rparr>"

section \<open>Python values, the file system and the call trace\<close>

text \<open>
  Values that flow through the driver. Objects made by the imported modules (sections,
  graphs, dictionaries of depth-to-property maps) are opaque to the driver and stand as
  \<open>ObjV\<close> with a label, or as whatever value the external call returns.
\<close>

datatype pyval =
    NoneV
  | BoolV bool
  | IntV int
  | FloatV real
  | StrV string
  | ListV "pyval list"
  | TupleV "pyval list"
  | FrameV frame
  | MatrixV matrix
  | ModuleV nn_module
  | OptimizerV torch_optimizer
  | LossV loss_module
  | ArgsV args
  | ObjV string

text \<open>A file holds either the pickle of a value or bytes that are no pickle.\<close>

datatype file_content = Pickle pyval | Raw string

type_synonym fs = "string \<Rightarrow> file_content option"

text \<open>
  What a run does beyond computing: directories made, files opened for reading and written,
  calls into the imported modules (name and arguments, in call order), lines printed.
\<close>

datatype event =
    Mkdir string
  | Read string
  | Write string
  | Call string "pyval list"
  | Print pyval

record world =
  files :: fs
  trace :: "event list"

type_synonym 'a prog = "world \<Rightarrow> (error + 'a) \<times> world"

text \<open>
  The imported functions, by name: given the arguments and the file system, a result or an
  exception, and the file system they leave behind (\<^verbatim>\<open>analysis\<close> writes the two
  pickles, the training loops write logs and models).
\<close>

type_synonym externals = "string \<Rightarrow> pyval list \<Rightarrow> fs \<Rightarrow> (error + pyval) \<times> fs"

definition ret :: "'a \<Rightarrow> 'a prog" where
  "ret x w = (Inr x, w)"

definition raise :: "error \<Rightarrow> 'a prog" where
  "raise e w = (Inl e, w)"

text \<open>Sequencing: an exception of the first statement skips the rest.\<close>

definition then_do :: "'a prog \<Rightarrow> ('a \<Rightarrow> 'b prog) \<Rightarrow> 'b prog" where
  "then_do m f w = (case m w of (Inl e, w') \<Rightarrow> (Inl e, w') | (Inr x, w') \<Rightarrow> f x w')"

definition lift :: "error + 'a \<Rightarrow> 'a prog" where
  "lift r w = (r, w)"

definition emit :: "event \<Rightarrow> unit prog" where
  "emit ev w = (Inr (), w\<lparr>trace := trace w @ [ev]\<rparr>)"

text \<open>A call into an imported module: logged, then run on the file system.\<close>

definition call :: "externals \<Rightarrow> string \<Rightarrow> pyval list \<Rightarrow> pyval prog" where
  "call ext name xs w =
     (case ext name xs (files w) of
        (r, fs') \<Rightarrow> (r, w\<lparr>files := fs', trace := trace w @ [Call name xs]\<rparr>))"

text \<open>\<^verbatim>\<open>Path.mkdir(parents=True, exist_ok=True)\<close>: logged; directories are not part
  of the file system model, so the call does not fail here.\<close>

definition mkdir :: "string \<Rightarrow> unit prog" where
  "mkdir d = emit (Mkdir d)"

text \<open>\<^verbatim>\<open>with open(path, 'rb') as fp: v = pickle.load(fp)\<close>: a missing file
  raises at \<^verbatim>\<open>open\<close>, bytes that are no pickle raise in \<^verbatim>\<open>pickle.load\<close>.\<close>

definition pickle_load :: "string \<Rightarrow> pyval prog" where
  "pickle_load path w =
     (case files w path of
        None \<Rightarrow> (Inl (FileNotFoundError path), w)
      | Some (Raw b) \<Rightarrow> (Inl (UnpicklingError path), w\<lparr>trace := trace w @ [Read path]\<rparr>)
      | Some (Pickle v) \<Rightarrow> (Inr v, w\<lparr>trace := trace w @ [Read path]\<rparr>))"

text \<open>\<^verbatim>\<open>with open(path, 'wb') as fp: pickle.dump(v, fp)\<close>.\<close>

definition pickle_dump :: "string \<Rightarrow> pyval \<Rightarrow> unit prog" where
  "pickle_dump path v w =
     (Inr (), w\<lparr>files := (files w)(path \<mapsto> Pickle v), trace := trace w @ [Write path]\<rparr>)"

text \<open>\<^verbatim>\<open>Path(d) / name\<close> and \<^verbatim>\<open>f'{d}/name'\<close>, for a directory name
  without a trailing separator.\<close>

definition path_join :: "string \<Rightarrow> string \<Rightarrow> string" where
  "path_join d name = d @ ''/'' @ name"

text \<open>Tuple unpacking \<^verbatim>\<open>a, b, ... = v\<close> into \<open>n\<close> names: a tuple or list of
  exactly \<open>n\<close> items; anything else raises.\<close>

definition unpack :: "nat \<Rightarrow> pyval \<Rightarrow> error + pyval list" where
  "unpack n v =
     (case v of
        TupleV xs \<Rightarrow> if length xs = n then Inr xs else Inl (ValueError ''wrong number of values to unpack'')
      | ListV xs \<Rightarrow> if length xs = n then Inr xs else Inl (ValueError ''wrong number of values to unpack'')
      | _ \<Rightarrow> Inl (TypeError ''cannot unpack non-iterable object''))"

text \<open>\<^verbatim>\<open>v[0]\<close> as the driver uses it on \<^verbatim>\<open>TRAIN\<close>.\<close>

definition getitem0 :: "pyval \<Rightarrow> error + pyval" where
  "getitem0 v =
     (case v of
        TupleV (x # _) \<Rightarrow> Inr x
      | ListV (x # _) \<Rightarrow> Inr x
      | MatrixV (x # _) \<Rightarrow> Inr (ListV (map FloatV x))
      | TupleV [] \<Rightarrow> Inl (IndexError ''tuple index out of range'')
      | ListV [] \<Rightarrow> Inl (IndexError ''list index out of range'')
      | MatrixV [] \<Rightarrow> Inl (IndexError ''index 0 is out of bounds'')
      | _ \<Rightarrow> Inl (TypeError ''object is not subscriptable''))"

text \<open>Truth value of an optional string: \<^verbatim>\<open>None\<close> and the empty string are false.\<close>

definition truthy :: "string option \<Rightarrow> bool" where
  "truthy v = (case v of None \<Rightarrow> False | Some s \<Rightarrow> s \<noteq> [])"

section \<open>Frames\<close>

text \<open>Frame operations on a value that is no frame raise.\<close>

definition as_frame :: "pyval \<Rightarrow> error + frame" where
  "as_frame v = (case v of FrameV f \<Rightarrow> Inr f | _ \<Rightarrow> Inl (TypeError ''not a DataFrame''))"

fun column_index :: "string \<Rightarrow> string list \<Rightarrow> nat option" where
  "column_index name [] = None"
| "column_index name (c # cs) =
     (if c = name then Some 0 else map_option Suc (column_index name cs))"

text \<open>
  \<^verbatim>\<open>F.loc[F[name] <= bound]\<close>: the rows whose cell in the named column is at most
  the bound, in frame order; KeyError when the frame has no such column. A row too short to
  have the cell compares false, as a missing value does.
\<close>

definition loc_le :: "string \<Rightarrow> int \<Rightarrow> frame \<Rightarrow> error + frame" where
  "loc_le name bound f =
     (case column_index name (columns f) of
        None \<Rightarrow> Inl (KeyError name)
      | Some i \<Rightarrow>
          Inr (f\<lparr>rows := filter (\<lambda>r. i < length r \<and> r ! i \<le> real_of_int bound) (rows f)\<rparr>))"

text \<open>\<^verbatim>\<open>F[[n1, n2, ...]]\<close>: the named columns, KeyError at the first missing one.\<close>

fun column_indices :: "string list \<Rightarrow> string list \<Rightarrow> error + nat list" where
  "column_indices [] cs = Inr []"
| "column_indices (n # ns) cs =
     (case column_index n cs of
        None \<Rightarrow> Inl (KeyError n)
      | Some i \<Rightarrow> (case column_indices ns cs of Inl e \<Rightarrow> Inl e | Inr js \<Rightarrow> Inr (i # js)))"

definition select_columns :: "string list \<Rightarrow> frame \<Rightarrow> error + frame" where
  "select_columns names f =
     (case column_indices names (columns f) of
        Inl e \<Rightarrow> Inl e
      | Inr js \<Rightarrow>
          Inr \<lparr>columns = names,
               rows = map (\<lambda>r. map (\<lambda>j. if j < length r then r ! j else 0) js) (rows f)\<rparr>)"

text \<open>
  \<^verbatim>\<open>F.iloc[a:b, c:d].values\<close> with non-negative bounds: rows at positions
  \<open>a \<le> i < b\<close>, cells at positions \<open>c \<le> j < d\<close>. A slice past the end is clipped,
  never an error.
\<close>

definition iloc :: "nat \<Rightarrow> nat \<Rightarrow> nat \<Rightarrow> nat \<Rightarrow> frame \<Rightarrow> matrix" where
  "iloc a b c d f = map (\<lambda>r. take (d - c) (drop c r)) (take (b - a) (drop a (rows f)))"

section \<open>Optimizer and loss selection\<close>

text \<open>
  \<^verbatim>\<open>choose_optimizer(model, optimizer_type, lr)\<close>: Adam over
  \<^verbatim>\<open>model.parameters()\<close> for the string \<^verbatim>\<open>"Adam"\<close>, ValueError
  otherwise.
\<close>

definition choose_optimizer :: "nn_module \<Rightarrow> string \<Rightarrow> real \<Rightarrow> error + torch_optimizer" where
  "choose_optimizer mdl optimizer_type rate =
     (if optimizer_type = ''Adam'' then Inr (Adam (parameters mdl) rate)
      else Inl (ValueError (''Unsupported optimizer type: '' @ optimizer_type)))"

text \<open>\<^verbatim>\<open>get_criterion(criterion_type)\<close>: the chain of string comparisons of the
  source, in its order.\<close>

definition get_criterion :: "string \<Rightarrow> error + loss_module" where
  "get_criterion criterion_type =
     (if criterion_type = ''L1loss'' then Inr L1Loss
      else if criterion_type = ''MSE'' then Inr MSELoss
      else Inl (ValueError (''Unsupported criterion type: '' @ criterion_type)))"

section \<open>Feature and target scaling of the FNN path\<close>

text \<open>
  \<^verbatim>\<open>sklearn.preprocessing.StandardScaler\<close> is a library class. Its two numeric
  operations are parameters: \<open>scaler_fit\<close> computes the fitted statistics (mean and scale
  per column) of a matrix, \<open>scaler_transform\<close> applies given statistics to a matrix;
  either may raise. The scaler object itself is modelled: its state is the statistics of its
  last fit, \<open>None\<close> before any.
\<close>

type_synonym scaler_params = "real list \<times> real list"

record sklearn =
  scaler_fit :: "matrix \<Rightarrow> error + scaler_params"
  scaler_transform :: "scaler_params \<Rightarrow> matrix \<Rightarrow> error + matrix"

type_synonym scaler = "scaler_params option"

definition StandardScaler :: scaler where
  "StandardScaler = None"

definition and_then :: "error + 'a \<Rightarrow> ('a \<Rightarrow> error + 'b) \<Rightarrow> error + 'b" where
  "and_then r f = (case r of Inl e \<Rightarrow> Inl e | Inr x \<Rightarrow> f x)"

text \<open>\<^verbatim>\<open>scaler.fit_transform(X)\<close>: fit on \<open>X\<close>, keep the statistics in the
  object, return \<open>X\<close> transformed by them.\<close>

definition fit_transform :: "sklearn \<Rightarrow> scaler \<Rightarrow> matrix \<Rightarrow> error + (matrix \<times> scaler)" where
  "fit_transform lib sc X =
     and_then (scaler_fit lib X) (\<lambda>p.
     and_then (scaler_transform lib p X) (\<lambda>Y. Inr (Y, Some p)))"

text \<open>\<^verbatim>\<open>scaler.transform(X)\<close>: the object's statistics applied to \<open>X\<close>; the
  object is left as it is.\<close>

definition transform :: "sklearn \<Rightarrow> scaler \<Rightarrow> matrix \<Rightarrow> error + (matrix \<times> scaler)" where
  "transform lib sc X =
     (case sc of
        None \<Rightarrow> Inl NotFittedError
      | Some p \<Rightarrow> and_then (scaler_transform lib p X) (\<lambda>Y. Inr (Y, sc)))"

record fnn_data =
  x_train :: matrix
  y_train :: matrix
  x_val :: matrix
  y_val :: matrix
  x_test :: matrix
  y_test :: matrix
  y_train_og :: matrix
  scaler_x :: scaler
  scaler_y :: scaler

text \<open>
  Lines 241 to 246 of \<^verbatim>\<open>main\<close>: the six positional slices of \<open>DF\<close>, in
  the order x_train_og, y_train_og, x_val, y_val, x_test, y_test. Rows are taken by position
  (\<^verbatim>\<open>[:135520]\<close>, \<^verbatim>\<open>[135520:152720]\<close>, \<^verbatim>\<open>[152720:169799]\<close>),
  features are columns 3 to 12, targets columns 19 to 21.
\<close>

definition fnn_slices :: "frame \<Rightarrow> matrix \<times> matrix \<times> matrix \<times> matrix \<times> matrix \<times> matrix" where
  "fnn_slices DF =
     (iloc 0 135520 3 13 DF, iloc 0 135520 19 22 DF,
      iloc 135520 152720 3 13 DF, iloc 135520 152720 19 22 DF,
      iloc 152720 169799 3 13 DF, iloc 152720 169799 19 22 DF)"

text \<open>
  Lines 241 to 257 of \<^verbatim>\<open>main\<close>: the slices, then the two scaler objects threaded
  through their six calls in the source's order.
\<close>

definition fnn_prepare :: "sklearn \<Rightarrow> frame \<Rightarrow> error + fnn_data" where
  "fnn_prepare lib DF =
     (case fnn_slices DF of (x_train_og, y_train_og0, x_val0, y_val0, x_test0, y_test0) \<Rightarrow>
      (let scaler = StandardScaler;
           scalery = StandardScaler
       in
        and_then (fit_transform lib scaler x_train_og) (\<lambda>(x_train1, scaler).
        and_then (transform lib scaler x_val0) (\<lambda>(x_val1, scaler).
        and_then (transform lib scaler x_test0) (\<lambda>(x_test1, scaler).
        and_then (fit_transform lib scalery y_train_og0) (\<lambda>(y_train1, scalery).
        and_then (transform lib scalery y_val0) (\<lambda>(y_val1, scalery).
        and_then (transform lib scalery y_test0) (\<lambda>(y_test1, scalery).
          Inr \<lparr>x_train = x_train1, y_train = y_train1,
               x_val = x_val1, y_val = y_val1,
               x_test = x_test1, y_test = y_test1,
               y_train_og = y_train_og0,
               scaler_x = scaler, scaler_y = scalery\<rparr>))))))))"

section \<open>The driver\<close>

definition ints :: "int list \<Rightarrow> pyval" where
  "ints xs = ListV (map IntV xs)"

definition intss :: "int list list \<Rightarrow> pyval" where
  "intss xss = ListV (map ints xss)"

definition floatss :: "real list list \<Rightarrow> pyval" where
  "floatss xss = ListV (map (\<lambda>xs. ListV (map FloatV xs)) xss)"

text \<open>The fourteen arguments of \<^verbatim>\<open>generatesection\<close>, the last one
  \<^verbatim>\<open>seed=\<close>, as both call sites write them.\<close>

definition generatesection_args :: "material_config \<Rightarrow> sampling_config \<Rightarrow> pyval list" where
  "generatesection_args mc sc =
     [IntV (N_POINTS sc), IntV (N_MATERIALS mc),
      ListV (map StrV (MATERIAL_TYPES mc)), ints (SUBLAYER_MAX mc),
      intss (THICKNESS_RANGE mc), intss (MODULUS_RANGE mc),
      IntV (Z_POINTS sc), IntV (X_POINTS sc),
      ints (THICKNESS_INCREMENT mc), ints (MODULUS_INCREMENT mc),
      floatss (NU_RANGE mc), ints (A_RANGE sc),
      IntV (A_POINTS sc), IntV (SEED sc)]"

definition query_points_args :: "sampling_config \<Rightarrow> pyval \<Rightarrow> pyval \<Rightarrow> pyval list" where
  "query_points_args sc Section Frame =
     [Section, IntV (N_POINTS sc), IntV (X_POINTS sc), IntV (Z_POINTS sc),
      FloatV (FACTOR sc), ints (A_RANGE sc), Frame]"

definition frame_path :: "args \<Rightarrow> string" where
  "frame_path a = path_join (data_path a) ''frame_large.pkl''"

definition section_path :: "args \<Rightarrow> string" where
  "section_path a = path_join (data_path a) ''section.pkl''"

text \<open>
  \<^verbatim>\<open>load_or_generate_data(args, config)\<close>, \<open>config\<close> being the merge of the
  material and the sampling dictionary. With \<^verbatim>\<open>run_analysis\<close> it generates, has
  \<^verbatim>\<open>analysis\<close> write the two pickles and reads them back; without, it only reads.
\<close>

definition load_or_generate_data ::
  "externals \<Rightarrow> args \<Rightarrow> material_config \<times> sampling_config \<Rightarrow> (pyval \<times> pyval) prog" where
  "load_or_generate_data ext a config =
     (case config of (mc, sc) \<Rightarrow>
      then_do (mkdir (data_path a)) (\<lambda>_.
      if run_analysis a then
        then_do (call ext ''generatesection'' (generatesection_args mc sc)) (\<lambda>r.
        then_do (lift (unpack 2 r)) (\<lambda>sf.
        then_do (call ext ''generate_query_points'' (query_points_args sc (sf ! 0) (sf ! 1))) (\<lambda>q.
        then_do (lift (unpack 9 q)) (\<lambda>qs.
        then_do (call ext ''analysis''
                   [StrV (frame_path a), StrV (section_path a), qs ! 0, sf ! 0]) (\<lambda>_.
        then_do (pickle_load (frame_path a)) (\<lambda>FrameLarge.
        then_do (pickle_load (section_path a)) (\<lambda>Section.
        ret (FrameLarge, Section))))))))
      else
        then_do (pickle_load (frame_path a)) (\<lambda>FrameLarge.
        then_do (pickle_load (section_path a)) (\<lambda>Section.
        ret (FrameLarge, Section)))))"

text \<open>What the first part of \<^verbatim>\<open>main\<close> hands to the model branches.\<close>

record staged =
  st_FrameLarge :: pyval
  st_Section :: pyval
  st_ZS :: pyval
  st_DF :: pyval
  st_xs :: pyval
  st_ztoE :: pyval
  st_ztoH :: pyval
  st_ztonu :: pyval

text \<open>
  Lines 194 to 221 of \<^verbatim>\<open>main\<close>: load or generate, then generate the temporary
  section and query points in every mode, strip the frame, and with
  \<^verbatim>\<open>run_analysis\<close> dump \<^verbatim>\<open>ZS\<close> and \<^verbatim>\<open>xs\<close>. The nine results of
  \<^verbatim>\<open>generate_query_points\<close> are FrameLarge_temp, ZS, xs, E, NU, final_dict_ztoE, H,
  final_dict_ztoH, final_dict_ztonu; \<^verbatim>\<open>remove_strain_z\<close> then rebinds ZS.
\<close>

definition main_data ::
  "externals \<Rightarrow> material_config \<Rightarrow> sampling_config \<Rightarrow> args \<Rightarrow> staged prog" where
  "main_data ext mc sc a =
     then_do (load_or_generate_data ext a (mc, sc)) (\<lambda>(FrameLarge, Section).
     then_do (call ext ''generatesection'' (generatesection_args mc sc)) (\<lambda>r.
     then_do (lift (unpack 2 r)) (\<lambda>sf.
     then_do (call ext ''generate_query_points'' (query_points_args sc Section (sf ! 1))) (\<lambda>q.
     then_do (lift (unpack 9 q)) (\<lambda>qs.
     then_do (call ext ''remove_strain_z'' [FrameLarge]) (\<lambda>z.
     then_do (lift (unpack 2 z)) (\<lambda>zd.
     then_do (if run_analysis a then
                then_do (pickle_dump (path_join (data_path a) ''ZS.pkl'') (zd ! 0)) (\<lambda>_.
                pickle_dump (path_join (data_path a) ''xs.pkl'') (qs ! 2))
              else ret ()) (\<lambda>_.
     ret \<lparr>st_FrameLarge = FrameLarge, st_Section = Section,
          st_ZS = zd ! 0, st_DF = zd ! 1, st_xs = qs ! 2,
          st_ztoE = qs ! 5, st_ztoH = qs ! 7, st_ztonu = qs ! 8\<rparr>))))))))"

text \<open>The nine arguments of \<^verbatim>\<open>train_val_test_generate\<close>, as the PNN and the GNN
  branch both write them.\<close>

definition split_args :: "sampling_config \<Rightarrow> staged \<Rightarrow> pyval list" where
  "split_args sc d =
     [st_DF d, st_ztoE d, st_ZS d, st_xs d,
      IntV (SPLIT_IDX sc), IntV (TEST_IDX sc), IntV (N_POINTS sc),
      st_ztoH d, st_ztonu d]"

definition eval_paths :: "args \<Rightarrow> string \<times> string \<times> string" where
  "eval_paths a =
     (path_join (data_path a) ''ZS.pkl'',
      path_join (data_path a) ''xs.pkl'',
      path_join (data_path a) ''batched_graph_test.pkl'')"

text \<open>
  The PNN branch. The eleven results of \<^verbatim>\<open>train_val_test_generate\<close> are TRAIN,
  TRAIN_out, VAL, VAL_out, TEST, TEST_out, ZS_train, ZS_val, ZS_test, mins_train, maxs_train.
\<close>

definition main_PNN :: "externals \<Rightarrow> sampling_config \<Rightarrow> args \<Rightarrow> staged \<Rightarrow> unit prog" where
  "main_PNN ext sc a d =
     then_do (call ext ''train_val_test_generate'' (split_args sc d)) (\<lambda>r.
     then_do (lift (unpack 11 r)) (\<lambda>t.
     if mode a = Some ''train'' then
       then_do (call ext ''training_nn'' [ArgsV a, t ! 0, t ! 1, t ! 2, t ! 3]) (\<lambda>_. ret ())
     else if mode a = Some ''eval'' then
       (case eval_paths a of (ZS_path, xs_path, batched_graph_test_path) \<Rightarrow>
        then_do (call ext ''evaluate_PNN''
                   [ArgsV a, t ! 4, t ! 5, StrV ZS_path, StrV xs_path,
                    StrV batched_graph_test_path]) (\<lambda>_. ret ()))
     else ret ()))"

text \<open>The FNN branch: positional slices and scalers, then evaluation or training.\<close>

definition main_FNN :: "externals \<Rightarrow> sklearn \<Rightarrow> args \<Rightarrow> staged \<Rightarrow> unit prog" where
  "main_FNN ext lib a d =
     then_do (lift (as_frame (st_DF d))) (\<lambda>DF.
     then_do (lift (fnn_prepare lib DF)) (\<lambda>p.
     if mode a = Some ''eval'' then
       (case eval_paths a of (ZS_path, xs_path, batched_graph_test_path) \<Rightarrow>
        then_do (call ext ''evaluate_FNN''
                   [StrV ZS_path, StrV xs_path, StrV batched_graph_test_path,
                    MatrixV (x_test p), MatrixV (y_test p), MatrixV (y_train_og p),
                    ArgsV a]) (\<lambda>_. ret ()))
     else if mode a = Some ''train'' then
       then_do (call ext ''training_FNN''
                  [ArgsV a, MatrixV (x_train p), MatrixV (y_train p),
                   MatrixV (x_val p), MatrixV (y_val p)]) (\<lambda>_. ret ())
     else ret ()))"

definition as_module :: "pyval \<Rightarrow> error + nn_module" where
  "as_module v =
     (case v of ModuleV m \<Rightarrow> Inr m | _ \<Rightarrow> Inl (AttributeError ''object has no attribute parameters''))"

text \<open>
  The GNN branch. The training rows of \<^verbatim>\<open>FrameLarge\<close> are selected by
  \<^verbatim>\<open>FrameLarge['Structure'] <= SPLIT_IDX\<close>. The six results of
  \<^verbatim>\<open>formation_of_matrices\<close> are MAT_edge, MAT_dist, MAT_edge_val, MAT_dist_val,
  MAT_edge_test, MAT_dist_test.
\<close>

definition main_GNN ::
  "externals \<Rightarrow> sampling_config \<Rightarrow> model_config \<Rightarrow> args \<Rightarrow> staged \<Rightarrow> unit prog" where
  "main_GNN ext sc mdl a d =
     then_do (lift (as_frame (st_FrameLarge d))) (\<lambda>FrameLarge.
     then_do (lift (loc_le ''Structure'' (SPLIT_IDX sc) FrameLarge)) (\<lambda>train_df.
     then_do (lift (select_columns [''Strain_Z'', ''Strain_R'', ''Strain_T''] train_df)) (\<lambda>train_df.
     then_do (call ext ''train_val_test_generate'' (split_args sc d)) (\<lambda>r.
     then_do (lift (unpack 11 r)) (\<lambda>t.
     then_do (emit (Print (StrV ''Here''))) (\<lambda>_.
     then_do (lift (getitem0 (t ! 0))) (\<lambda>train0.
     then_do (emit (Print train0)) (\<lambda>_.
     then_do (call ext ''formation_of_matrices''
                [t ! 0, t ! 2, t ! 4, t ! 6, st_xs d, t ! 7, t ! 8]) (\<lambda>m.
     then_do (lift (unpack 6 m)) (\<lambda>mats.
     then_do (call ext ''GAT''
                [IntV (INPUT_DIM mdl), IntV (HIDDEN_DIM1 mdl), IntV (HIDDEN_DIM mdl),
                 IntV (OUTPUT_DIM mdl), IntV (NUM_LAYERS mdl)]) (\<lambda>gat.
     then_do (emit (Print (StrV ''This is it''))) (\<lambda>_.
     then_do (lift (getitem0 (t ! 0))) (\<lambda>train0.
     then_do (emit (Print train0)) (\<lambda>_.
     then_do (call ext ''train_graph'' [t ! 0, t ! 1, mats ! 0, mats ! 1]) (\<lambda>batched_graph.
     then_do (call ext ''val_graph'' [t ! 2, t ! 3, mats ! 2, mats ! 3]) (\<lambda>batched_graph_val.
     then_do (call ext ''test_graph'' [t ! 4, t ! 5, mats ! 4, mats ! 5]) (\<lambda>batched_graph_test.
     then_do (if run_analysis a then
                pickle_dump (path_join (data_path a) ''batched_graph.pkl'') batched_graph
              else ret ()) (\<lambda>_.
     if mode a = Some ''eval'' then
       (case eval_paths a of (ZS_path, xs_path, batched_graph_test_path) \<Rightarrow>
        then_do (call ext ''evaluate_GNN''
                   [ArgsV a, StrV batched_graph_test_path, gat, StrV ZS_path, StrV xs_path])
                (\<lambda>_. ret ()))
     else
       then_do (lift (as_module gat)) (\<lambda>net.
       then_do (lift (choose_optimizer net (optimizer a) (lr a))) (\<lambda>opt.
       then_do (lift (get_criterion (criterion a))) (\<lambda>crit.
       if mode a = Some ''train'' then
         then_do (call ext ''training_loop''
                    [ArgsV a, gat, OptimizerV opt,
                     batched_graph, batched_graph_val, batched_graph_test,
                     FloatV (lr a), IntV (epochs a), LossV crit,
                     st_Section d, st_ZS d, st_xs d, NoneV]) (\<lambda>_. ret ())
       else ret ())))))))))))))))))))))"

definition model_path_message :: string where
  "model_path_message = ''--model_path must be provided when --mode is '' @ [CHR 0x27] @ ''eval''
     @ [CHR 0x27] @ ''.''"

text \<open>
  \<^verbatim>\<open>main(args)\<close>. The three configuration dictionaries are module globals in the
  source; here they are arguments, so that a property can speak of other values than the
  ones the file ships.
\<close>

definition main ::
  "externals \<Rightarrow> sklearn \<Rightarrow> material_config \<Rightarrow> sampling_config \<Rightarrow> model_config
     \<Rightarrow> args \<Rightarrow> unit prog" where
  "main ext lib mc sc mdl a =
     (if mode a = Some ''eval'' \<and> \<not> truthy (model_path a) then
        raise (ValueError model_path_message)
      else
        then_do (main_data ext mc sc a) (\<lambda>d.
        if model a = Some ''PNN'' then main_PNN ext sc a d
        else if model a = Some ''FNN'' then main_FNN ext lib a d
        else if model a = Some ''GNN'' then main_GNN ext sc mdl a d
        else ret ()))"

section \<open>Trace discipline\<close>

text \<open>A program only ever appends to the trace: what was logged stays logged, in order.\<close>

definition appends :: "'a prog \<Rightarrow> bool" where
  "appends p = (\<forall>w. \<exists>evs. trace (snd (p w)) = trace w @ evs)"

section \<open>Sample inputs\<close>

text \<open>
  Concrete stand-ins for the imported modules, returning tuples of the arity the driver
  unpacks; \<^verbatim>\<open>analysis\<close> writes the two pickles it is given paths for.
\<close>

definition sample_externals :: externals where
  "sample_externals name xs fs =
     (if name = ''generatesection'' then (Inr (TupleV [ObjV ''Section_temp'', ObjV ''Frame'']), fs)
      else if name = ''generate_query_points'' then
        (Inr (TupleV [ObjV ''FrameLarge_temp'', ObjV ''ZS'', ObjV ''xs'', ObjV ''E'', ObjV ''NU'',
                      ObjV ''final_dict_ztoE'', ObjV ''H'', ObjV ''final_dict_ztoH'',
                      ObjV ''final_dict_ztonu'']), fs)
      else if name = ''analysis'' then
        (case xs of
           [StrV fp, StrV sp, fl, sec] \<Rightarrow> (Inr NoneV, fs(fp \<mapsto> Pickle fl, sp \<mapsto> Pickle sec))
         | _ \<Rightarrow> (Inl (TypeError ''analysis''), fs))
      else if name = ''remove_strain_z'' then (Inr (TupleV (ObjV ''ZS'' # take 1 xs)), fs)
      else if name = ''train_val_test_generate'' then
        (Inr (TupleV [ListV [ObjV ''TRAIN0''], ObjV ''TRAIN_out'', ObjV ''VAL'', ObjV ''VAL_out'',
                      ObjV ''TEST'', ObjV ''TEST_out'', ObjV ''ZS_train'', ObjV ''ZS_val'',
                      ObjV ''ZS_test'', ObjV ''mins_train'', ObjV ''maxs_train'']), fs)
      else if name = ''formation_of_matrices'' then
        (Inr (TupleV [ObjV ''MAT_edge'', ObjV ''MAT_dist'', ObjV ''MAT_edge_val'',
                      ObjV ''MAT_dist_val'', ObjV ''MAT_edge_test'', ObjV ''MAT_dist_test'']), fs)
      else if name = ''GAT'' then (Inr (ModuleV \<lparr>parameters = [0, 0]\<rparr>), fs)
      else (Inr NoneV, fs))"

text \<open>A centring scaler: column means as the statistics, unit scale.\<close>

definition sample_sklearn :: sklearn where
  "sample_sklearn =
     \<lparr>scaler_fit = (\<lambda>X. Inr (map (\<lambda>c. sum_list c / real (length c)) (transpose X),
                             map (\<lambda>c. 1) (transpose X))),
      scaler_transform = (\<lambda>p X. case p of (mu, sd) \<Rightarrow>
          Inr (map (\<lambda>r. map (\<lambda>(x, m, s). (x - m) / s) (zip r (zip mu sd))) X))\<rparr>"

text \<open>A command line without \<^verbatim>\<open>--run_analysis\<close>, \<^verbatim>\<open>--model\<close> and
  \<^verbatim>\<open>--model_path\<close>.\<close>

definition cached_args :: args where
  "cached_args = \<lparr>run_analysis = False, mode = Some ''train'', model = None,
     data_path = ''data'', lr = 1 / 1000, epochs = 10, optimizer = ''Adam'',
     criterion = ''MSE'', log_dir = ''logs'', model_path = None\<rparr>"

text \<open>A frame with one row for each of the structures 799, 800 and 801.\<close>

definition boundary_frame :: frame where
  "boundary_frame =
     \<lparr>columns = [''Structure'', ''Strain_Z'', ''Strain_R'', ''Strain_T''],
      rows = [[799, 1, 2, 3], [800, 4, 5, 6], [801, 7, 8, 9]]\<rparr>"

definition cached_world :: world where
  "cached_world = \<lparr>files = [''data/frame_large.pkl'' \<mapsto> Pickle (FrameV boundary_frame),
                             ''data/section.pkl'' \<mapsto> Pickle (ObjV ''Section'')],
                    trace = []\<rparr>"


text \<open>
  A frame of 1000 structures with \<open>Z_POINTS * X_POINTS * A_POINTS = 140\<close> rows each, in
  structure order, 22 columns wide; every cell of a row holds the row's structure index.
\<close>

definition uniform_frame :: frame where
  "uniform_frame =
     \<lparr>columns = ''Structure'' # map (\<lambda>j. ''c'' @ replicate j CHR ''x'') [1..<22],
      rows = map (\<lambda>i. replicate 22 (real (i div 140))) [0..<140000]\<rparr>"


section \<open>Properties\<close>

subsection \<open>Sequencing and the trace\<close>

lemma then_do_Inr: "m w = (Inr x, w') \<Longrightarrow> then_do m f w = f x w'"
  by (simp add: then_do_def)

lemma appends_ret: "appends (ret x)"
  by (simp add: appends_def ret_def)

lemma appends_raise: "appends (raise e)"
  by (simp add: appends_def raise_def)

lemma appends_lift: "appends (lift r)"
  by (simp add: appends_def lift_def)

lemma appends_emit: "appends (emit ev)"
  by (simp add: appends_def emit_def)

lemma appends_call: "appends (call ext name xs)"
  by (simp add: appends_def call_def split: prod.splits)

lemma appends_pickle_load: "appends (pickle_load path)"
  by (simp add: appends_def pickle_load_def split: option.splits file_content.splits)

lemma appends_pickle_dump: "appends (pickle_dump path v)"
  by (simp add: appends_def pickle_dump_def)

lemma appends_then_do:
  assumes m: "appends m" and f: "\<And>x. appends (f x)"
  shows "appends (then_do m f)"
proof (unfold appends_def, intro allI)
  fix w
  obtain r w' where mw: "m w = (r, w')" by (cases "m w")
  from m obtain evs where e1: "trace w' = trace w @ evs"
    unfolding appends_def using mw by (metis snd_conv)
  show "\<exists>evs. trace (snd (then_do m f w)) = trace w @ evs"
  proof (cases r)
    case (Inl e)
    then show ?thesis using mw e1 by (simp add: then_do_def)
  next
    case (Inr x)
    from f [of x] obtain evs2 where "trace (snd (f x w')) = trace w' @ evs2"
      unfolding appends_def by blast
    then show ?thesis using mw e1 Inr by (simp add: then_do_def)
  qed
qed

lemma appends_if: "appends p \<Longrightarrow> appends q \<Longrightarrow> appends (if b then p else q)"
  by simp

lemma appends_case_prod3:
  "(\<And>x y z. appends (f x y z)) \<Longrightarrow> appends (case t of (x, y, z) \<Rightarrow> f x y z)"
  by (cases t) simp

lemmas appends_intros = appends_ret appends_raise appends_lift appends_emit appends_call
  appends_pickle_load appends_pickle_dump appends_then_do appends_if appends_case_prod3

lemma appends_main_PNN: "appends (main_PNN ext sc a d)"
  unfolding main_PNN_def by (intro appends_intros)

lemma appends_main_FNN: "appends (main_FNN ext lib a d)"
  unfolding main_FNN_def by (intro appends_intros)

lemma appends_main_GNN: "appends (main_GNN ext sc mdl a d)"
  unfolding main_GNN_def by (intro appends_intros)

lemma appends_dispatch:
  "appends (if model a = Some ''PNN'' then main_PNN ext sc a d
        else if model a = Some ''FNN'' then main_FNN ext lib a d
        else if model a = Some ''GNN'' then main_GNN ext sc mdl a d
        else ret ())"
  by (intro appends_intros appends_main_PNN appends_main_FNN appends_main_GNN)

text \<open>A call followed by anything that only appends: the call is the next event.\<close>

lemma trace_then_do_call:
  assumes "\<And>x. appends (k x)"
  shows "\<exists>evs. trace (snd (then_do (call ext n xs) k w)) = trace w @ [Call n xs] @ evs"
proof -
  obtain r fs' where e: "ext n xs (files w) = (r, fs')" by (cases "ext n xs (files w)")
  show ?thesis
  proof (cases r)
    case (Inl err)
    then show ?thesis using e by (simp add: then_do_def call_def)
  next
    case (Inr x)
    from assms [of x] obtain evs where
      "trace (snd (k x (w\<lparr>files := fs', trace := trace w @ [Call n xs]\<rparr>))) =
         trace (w\<lparr>files := fs', trace := trace w @ [Call n xs]\<rparr>) @ evs"
      unfolding appends_def by blast
    then show ?thesis using e Inr by (simp add: then_do_def call_def)
  qed
qed

lemma trace_then_do_prefix:
  assumes m: "\<exists>evs. trace (snd (m w)) = trace w @ pre @ evs"
    and f: "\<And>x. appends (f x)"
  shows "\<exists>evs. trace (snd (then_do m f w)) = trace w @ pre @ evs"
proof -
  obtain r w' where mw: "m w = (r, w')" by (cases "m w")
  from m mw obtain evs where e1: "trace w' = trace w @ pre @ evs" by auto
  show ?thesis
  proof (cases r)
    case (Inl e)
    then show ?thesis using mw e1 by (simp add: then_do_def)
  next
    case (Inr x)
    from f [of x] obtain evs2 where "trace (snd (f x w')) = trace w' @ evs2"
      unfolding appends_def by blast
    then show ?thesis using mw e1 Inr by (simp add: then_do_def)
  qed
qed

lemmas prog_defs = then_do_def ret_def raise_def lift_def emit_def call_def mkdir_def
  pickle_load_def pickle_dump_def path_join_def frame_path_def section_path_def unpack_def

subsection \<open>Loading cached artifacts\<close>

lemma load_cached_reads:
  assumes "\<not> run_analysis a"
    and "files w (frame_path a) = Some (Pickle f)"
    and "files w (section_path a) = Some (Pickle s)"
  shows "load_or_generate_data ext a (mc, sc) w =
           (Inr (f, s), w\<lparr>trace := trace w @
              [Mkdir (data_path a), Read (frame_path a), Read (section_path a)]\<rparr>)"
  using assms
  by (simp add: load_or_generate_data_def then_do_def mkdir_def emit_def pickle_load_def ret_def)

lemma main_data_cached_trace:
  assumes "\<not> run_analysis a"
    and "files w (frame_path a) = Some (Pickle f)"
    and "files w (section_path a) = Some (Pickle s)"
  shows "\<exists>evs. trace (snd (main_data ext mc sc a w)) =
           trace w @ [Mkdir (data_path a), Read (frame_path a), Read (section_path a),
                      Call ''generatesection'' (generatesection_args mc sc)] @ evs"
proof -
  let ?w1 = "w\<lparr>trace := trace w @
              [Mkdir (data_path a), Read (frame_path a), Read (section_path a)]\<rparr>"
  have l: "load_or_generate_data ext a (mc, sc) w = (Inr (f, s), ?w1)"
    by (rule load_cached_reads [OF assms])
  have "\<exists>evs. trace (snd (main_data ext mc sc a w)) =
          trace ?w1 @ [Call ''generatesection'' (generatesection_args mc sc)] @ evs"
    unfolding main_data_def
      then_do_Inr [of "load_or_generate_data ext a (mc, sc)" w "(f, s)" "?w1", OF l] prod.case
    by (rule trace_then_do_call) (intro appends_intros)
  then show ?thesis by simp
qed

lemma main_data_cached_trace_query_points:
  assumes "\<not> run_analysis a"
    and "files w (frame_path a) = Some (Pickle f)"
    and "files w (section_path a) = Some (Pickle s)"
    and g: "ext ''generatesection'' (generatesection_args mc sc) (files w)
              = (Inr (TupleV [st, fr]), fs')"
  shows "\<exists>evs. trace (snd (main_data ext mc sc a w)) =
           trace w @ [Mkdir (data_path a), Read (frame_path a), Read (section_path a),
                      Call ''generatesection'' (generatesection_args mc sc),
                      Call ''generate_query_points'' (query_points_args sc s fr)] @ evs"
proof -
  let ?w1 = "w\<lparr>trace := trace w @
              [Mkdir (data_path a), Read (frame_path a), Read (section_path a)]\<rparr>"
  let ?w2 = "?w1\<lparr>files := fs', trace := trace ?w1 @
              [Call ''generatesection'' (generatesection_args mc sc)]\<rparr>"
  have l: "load_or_generate_data ext a (mc, sc) w = (Inr (f, s), ?w1)"
    by (rule load_cached_reads [OF assms(1-3)])
  have c: "call ext ''generatesection'' (generatesection_args mc sc) ?w1
             = (Inr (TupleV [st, fr]), ?w2)"
    using g by (simp add: call_def)
  have u: "lift (unpack 2 (TupleV [st, fr])) ?w2 = (Inr [st, fr], ?w2)"
    by (simp add: lift_def unpack_def)
  have n: "[st, fr] ! 1 = fr" by simp
  have "\<exists>evs. trace (snd (main_data ext mc sc a w)) =
          trace ?w2 @ [Call ''generate_query_points'' (query_points_args sc s fr)] @ evs"
    unfolding main_data_def
      then_do_Inr [of "load_or_generate_data ext a (mc, sc)" w "(f, s)" "?w1", OF l] prod.case
      then_do_Inr [of "call ext ''generatesection'' (generatesection_args mc sc)" "?w1"
        "TupleV [st, fr]" "?w2", OF c]
      then_do_Inr [of "lift (unpack 2 (TupleV [st, fr]))" "?w2" "[st, fr]" "?w2", OF u] n
    by (rule trace_then_do_call) (intro appends_intros)
  then show ?thesis by simp
qed


subsection \<open>Optimizer and criterion dispatch\<close>


subsection \<open>The eval-mode guard\<close>

text \<open>
  Claim C9. When \<open>mode\<close> is \<open>eval\<close> and no model path is given (the option is absent,
  or empty), \<open>main\<close> raises ValueError at once: the world is returned as it was, so no
  directory was made, no file read or written, no imported function called, no model built.
\<close>

theorem main_eval_requires_model_path:
  "mode a = Some ''eval'' \<Longrightarrow> \<not> truthy (model_path a) \<Longrightarrow>
     main ext lib mc sc mdl a w = (Inl (ValueError model_path_message), w)"
  by (simp add: main_def raise_def)

text \<open>Witness for C9: the sample command line switched to eval mode, on the sample data
  directory.\<close>

theorem main_eval_requires_model_path_witness:
  "mode (cached_args\<lparr>mode := Some ''eval''\<rparr>) = Some ''eval''
   \<and> \<not> truthy (model_path (cached_args\<lparr>mode := Some ''eval''\<rparr>))
   \<and> main sample_externals sample_sklearn MATERIAL_CONFIG SAMPLING_CONFIG MODEL_CONFIG
        (cached_args\<lparr>mode := Some ''eval''\<rparr>) cached_world
      = (Inl (ValueError model_path_message), cached_world)
   \<and> trace cached_world = []"
proof -
  have h1: "mode (cached_args\<lparr>mode := Some ''eval''\<rparr>) = Some ''eval''" by simp
  have h2: "\<not> truthy (model_path (cached_args\<lparr>mode := Some ''eval''\<rparr>))"
    by (simp add: cached_args_def truthy_def)
  show ?thesis
    using h1 h2 main_eval_requires_model_path [OF h1 h2]
    by (simp add: cached_world_def)
qed

subsection \<open>Cached artifacts are not validated\<close>




subsection \<open>Split indices are not validated\<close>




subsection \<open>Cached mode still generates\<close>

text \<open>
  Claim C5, as stated, fails: without \<^verbatim>\<open>--run_analysis\<close> and with both pickles on
  disk, \<open>main\<close> reads them and then calls \<^verbatim>\<open>generatesection\<close> and
  \<^verbatim>\<open>generate_query_points\<close> all the same.
\<close>

theorem cached_mode_still_calls_generation:
  "\<not> run_analysis cached_args
   \<and> trace (snd (main sample_externals sample_sklearn MATERIAL_CONFIG SAMPLING_CONFIG MODEL_CONFIG
                  cached_args cached_world))
     = [Mkdir ''data'', Read ''data/frame_large.pkl'', Read ''data/section.pkl'',
        Call ''generatesection'' (generatesection_args MATERIAL_CONFIG SAMPLING_CONFIG),
        Call ''generate_query_points''
          (query_points_args SAMPLING_CONFIG (ObjV ''Section'') (ObjV ''Frame'')),
        Call ''remove_strain_z'' [FrameV boundary_frame]]"
  by (simp add: main_def main_data_def load_or_generate_data_def prog_defs truthy_def
        cached_args_def cached_world_def sample_externals_def)

text \<open>
  Claim C5, amended. In load-cached mode, with both pickles on disk,
  \<open>load_or_generate_data\<close> returns the two stored objects and does nothing but make the
  data directory and read the two files: it calls no generation function. Every run of
  \<open>main\<close> that passes the eval-mode guard then goes on to call
  \<^verbatim>\<open>generatesection\<close> with the configured arguments as its very next step, and,
  when that returns a pair, \<^verbatim>\<open>generate_query_points\<close> on the loaded sections
  right after it; so the cached artifacts do not spare these computations.
\<close>

theorem cached_mode_reads_then_generates:
  assumes "\<not> run_analysis a"
    and "files w (frame_path a) = Some (Pickle f)"
    and "files w (section_path a) = Some (Pickle s)"
    and "\<not> (mode a = Some ''eval'' \<and> \<not> truthy (model_path a))"
  shows "load_or_generate_data ext a (mc, sc) w =
           (Inr (f, s), w\<lparr>trace := trace w @
              [Mkdir (data_path a), Read (frame_path a), Read (section_path a)]\<rparr>)
    \<and> (\<exists>evs. trace (snd (main ext lib mc sc mdl a w)) =
           trace w @ [Mkdir (data_path a), Read (frame_path a), Read (section_path a),
                      Call ''generatesection'' (generatesection_args mc sc)] @ evs)
    \<and> (\<forall>st fr fs'.
          ext ''generatesection'' (generatesection_args mc sc) (files w)
            = (Inr (TupleV [st, fr]), fs') \<longrightarrow>
          (\<exists>evs. trace (snd (main ext lib mc sc mdl a w)) =
             trace w @ [Mkdir (data_path a), Read (frame_path a), Read (section_path a),
                        Call ''generatesection'' (generatesection_args mc sc),
                        Call ''generate_query_points'' (query_points_args sc s fr)] @ evs))"
proof -
  let ?D = "\<lambda>d. if model a = Some ''PNN'' then main_PNN ext sc a d
        else if model a = Some ''FNN'' then main_FNN ext lib a d
        else if model a = Some ''GNN'' then main_GNN ext sc mdl a d
        else ret ()"
  let ?pre = "[Mkdir (data_path a), Read (frame_path a), Read (section_path a),
               Call ''generatesection'' (generatesection_args mc sc)]"
  have m: "main ext lib mc sc mdl a w = then_do (main_data ext mc sc a) ?D w"
    using assms(4) by (auto simp add: main_def)
  have d: "\<exists>evs. trace (snd (main_data ext mc sc a w)) = trace w @ ?pre @ evs"
    by (rule main_data_cached_trace [OF assms(1-3)])
  have "\<exists>evs. trace (snd (then_do (main_data ext mc sc a) ?D w)) = trace w @ ?pre @ evs"
    by (rule trace_then_do_prefix [where m = "main_data ext mc sc a" and w = w and pre = ?pre
          and f = ?D, OF d appends_dispatch])
  then have first: "\<exists>evs. trace (snd (main ext lib mc sc mdl a w)) = trace w @ ?pre @ evs"
    by (simp only: m)
  have second: "\<exists>evs. trace (snd (main ext lib mc sc mdl a w)) =
             trace w @ [Mkdir (data_path a), Read (frame_path a), Read (section_path a),
                        Call ''generatesection'' (generatesection_args mc sc),
                        Call ''generate_query_points'' (query_points_args sc s fr)] @ evs"
    if g: "ext ''generatesection'' (generatesection_args mc sc) (files w)
             = (Inr (TupleV [st, fr]), fs')" for st fr fs'
  proof -
    let ?pre2 = "[Mkdir (data_path a), Read (frame_path a), Read (section_path a),
                  Call ''generatesection'' (generatesection_args mc sc),
                  Call ''generate_query_points'' (query_points_args sc s fr)]"
    have d2: "\<exists>evs. trace (snd (main_data ext mc sc a w)) = trace w @ ?pre2 @ evs"
      by (rule main_data_cached_trace_query_points [where ext = ext, OF assms(1-3) g])
    have "\<exists>evs. trace (snd (then_do (main_data ext mc sc a) ?D w)) = trace w @ ?pre2 @ evs"
      by (rule trace_then_do_prefix [where m = "main_data ext mc sc a" and w = w
            and pre = ?pre2 and f = ?D, OF d2 appends_dispatch])
    then show ?thesis by (simp only: m)
  qed
  show ?thesis
    using load_cached_reads [OF assms(1-3)] first second by blast
qed

text \<open>Witness for C5: a GNN training run on the sample data directory.\<close>

theorem cached_mode_reads_then_generates_witness:
  "\<not> run_analysis (cached_args\<lparr>model := Some ''GNN''\<rparr>)
   \<and> files cached_world (frame_path (cached_args\<lparr>model := Some ''GNN''\<rparr>))
       = Some (Pickle (FrameV boundary_frame))
   \<and> files cached_world (section_path (cached_args\<lparr>model := Some ''GNN''\<rparr>))
       = Some (Pickle (ObjV ''Section''))
   \<and> \<not> (mode (cached_args\<lparr>model := Some ''GNN''\<rparr>) = Some ''eval''
         \<and> \<not> truthy (model_path (cached_args\<lparr>model := Some ''GNN''\<rparr>)))
   \<and> (\<exists>evs. trace (snd (main sample_externals sample_sklearn MATERIAL_CONFIG SAMPLING_CONFIG
                           MODEL_CONFIG (cached_args\<lparr>model := Some ''GNN''\<rparr>) cached_world))
         = [Mkdir ''data'', Read ''data/frame_large.pkl'', Read ''data/section.pkl'',
            Call ''generatesection'' (generatesection_args MATERIAL_CONFIG SAMPLING_CONFIG),
            Call ''generate_query_points''
              (query_points_args SAMPLING_CONFIG (ObjV ''Section'') (ObjV ''Frame''))]
           @ evs)"
proof -
  let ?a = "cached_args\<lparr>model := Some ''GNN''\<rparr>"
  have h1: "\<not> run_analysis ?a" by (simp add: cached_args_def)
  have h2: "files cached_world (frame_path ?a) = Some (Pickle (FrameV boundary_frame))"
    by (simp add: cached_args_def cached_world_def frame_path_def path_join_def)
  have h3: "files cached_world (section_path ?a) = Some (Pickle (ObjV ''Section''))"
    by (simp add: cached_args_def cached_world_def section_path_def path_join_def)
  have h4: "\<not> (mode ?a = Some ''eval'' \<and> \<not> truthy (model_path ?a))"
    by (simp add: cached_args_def)
  have p: "frame_path ?a = ''data/frame_large.pkl''" "section_path ?a = ''data/section.pkl''"
    "data_path ?a = ''data''" "trace cached_world = []"
    by (simp_all add: cached_args_def cached_world_def frame_path_def section_path_def
          path_join_def)
  have g: "sample_externals ''generatesection''
             (generatesection_args MATERIAL_CONFIG SAMPLING_CONFIG) (files cached_world)
           = (Inr (TupleV [ObjV ''Section_temp'', ObjV ''Frame'']), files cached_world)"
    by (simp add: sample_externals_def)
  from cached_mode_reads_then_generates [OF h1 h2 h3 h4, of sample_externals MATERIAL_CONFIG
        SAMPLING_CONFIG sample_sklearn MODEL_CONFIG]
  have "\<exists>evs. trace (snd (main sample_externals sample_sklearn MATERIAL_CONFIG SAMPLING_CONFIG
                           MODEL_CONFIG ?a cached_world))
         = trace cached_world @ [Mkdir (data_path ?a), Read (frame_path ?a),
              Read (section_path ?a),
              Call ''generatesection'' (generatesection_args MATERIAL_CONFIG SAMPLING_CONFIG),
              Call ''generate_query_points''
                (query_points_args SAMPLING_CONFIG (ObjV ''Section'') (ObjV ''Frame''))] @ evs"
    using g by blast
  then show ?thesis
    using h1 h2 h3 h4 by (simp add: p)
qed

subsection \<open>Scalers of the FNN path\<close>



subsection \<open>Row selection by structure index and by position\<close>

text \<open>
  Claim C1, at the boundary. The training filter of the GNN branch,
  \<^verbatim>\<open>FrameLarge['Structure'] <= SPLIT_IDX\<close>, keeps the row of structure 800 although
  800 is not below \<open>SPLIT_IDX = 800\<close>: it selects the indices up to and including the split
  index, one structure more than the range \<open>[0, split_idx)\<close>.
\<close>

theorem gnn_train_filter_keeps_split_idx:
  "loc_le ''Structure'' (SPLIT_IDX SAMPLING_CONFIG) boundary_frame
     = Inr (boundary_frame\<lparr>rows := [[799, 1, 2, 3], [800, 4, 5, 6]]\<rparr>)
   \<and> \<not> (800 < SPLIT_IDX SAMPLING_CONFIG)"
  by (simp add: loc_le_def boundary_frame_def SAMPLING_CONFIG_def)

text \<open>
  Claim C2, on a frame of 1000 structures with 140 rows each. The FNN branch slices by row
  position: its training slice has 135520 rows, the rows of 968 structures, among them the
  first row of structure 800 (row 112000), which by the configured ranges is a validation
  structure; the validation slice has the remaining 4480 rows (32 structures) and the test
  slice is empty.
\<close>

theorem fnn_slices_by_row_position:
  "length (rows uniform_frame) = 1000 * 140
   \<and> rows uniform_frame ! (800 * 140) ! 0 = real_of_int (SPLIT_IDX SAMPLING_CONFIG)
   \<and> length (fst (fnn_slices uniform_frame)) = 968 * 140
   \<and> fst (fnn_slices uniform_frame) ! (800 * 140)
       = take 10 (drop 3 (rows uniform_frame ! (800 * 140)))
   \<and> length (fst (snd (snd (fnn_slices uniform_frame)))) = 32 * 140
   \<and> fst (snd (snd (snd (snd (fnn_slices uniform_frame))))) = []"
  by (simp add: fnn_slices_def iloc_def uniform_frame_def SAMPLING_CONFIG_def)

end
